theory Spec2Isabelle
  imports Main "HOL-Library.AList" "HOL-Library.Sublist" "HOL-Library.Multiset"
begin

section \<open>Values\<close>

text \<open>
  The values that travel through the gateway are what \<^verbatim>\<open>JSON.parse\<close> yields. An object is
  an association list; property \<open>k\<close> of an object is \<open>map_of kvs k\<close>, and \<open>None\<close> is
  JavaScript's \<^verbatim>\<open>undefined\<close>. The gateway observes a number in three ways only: by its kind,
  by its being zero or not (truthiness), and by its rendering \<^verbatim>\<open>String(n)\<close> inside a message.
  A number is therefore represented by that rendering (\<open>''7''\<close>, \<open>''-1.5''\<close>, \<open>''1e+21''\<close>),
  which determines it up to the sign of zero; both zeros render as \<open>''0''\<close>, and
  \<^verbatim>\<open>JSON.parse\<close> yields no \<^verbatim>\<open>NaN\<close>.
\<close>

datatype json =
    JNull
  | JBool bool
  | JNum string
  | JStr string
  | JArr "json list"
  | JObj "(string \<times> json) list"

text \<open>Truthiness of a value, as \<^verbatim>\<open>!x\<close> and \<^verbatim>\<open>x || y\<close> test it.\<close>

fun truthy :: "json option \<Rightarrow> bool" where
  "truthy None = False"
| "truthy (Some JNull) = False"
| "truthy (Some (JBool b)) = b"
| "truthy (Some (JNum r)) = (r \<noteq> ''0'')"
| "truthy (Some (JStr s)) = (s \<noteq> [])"
| "truthy (Some (JArr xs)) = True"
| "truthy (Some (JObj kvs)) = True"

text \<open>
  What can be thrown: an \<^verbatim>\<open>Error\<close> with its message, a \<^verbatim>\<open>SyntaxError\<close> with its message
  (it is an \<^verbatim>\<open>Error\<close> too, and the one \<^verbatim>\<open>JSON.parse\<close> throws), or a value that is not an
  \<^verbatim>\<open>Error\<close> at all.
\<close>

datatype thrown = Error string | SyntaxError string | NonError

text \<open>A string between single quotes, as the messages of the gateway show names.\<close>

definition quoted :: "string \<Rightarrow> string" where
  "quoted s = [CHR 0x27] @ s @ [CHR 0x27]"

text \<open>
  Property access \<^verbatim>\<open>v.k\<close> for the keys the gateway reads (\<^verbatim>\<open>method\<close>, \<^verbatim>\<open>params\<close>,
  \<^verbatim>\<open>name\<close>, \<^verbatim>\<open>arguments\<close>): on an object it is the lookup, on every other value but
  \<^verbatim>\<open>null\<close> it is \<^verbatim>\<open>undefined\<close>, and on \<^verbatim>\<open>null\<close> it throws a \<^verbatim>\<open>TypeError\<close>, which is an
  \<^verbatim>\<open>Error\<close> (its message in the wording of V8).
\<close>

fun lookup_prop :: "json \<Rightarrow> string \<Rightarrow> json option" where
  "lookup_prop (JObj kvs) k = map_of kvs k"
| "lookup_prop v k = None"

definition get_prop :: "json \<Rightarrow> string \<Rightarrow> thrown + json option" where
  "get_prop v k =
     (if v = JNull then
        Inl (Error (''Cannot read properties of null (reading '' @ quoted k @ '')''))
      else Inr (lookup_prop v k))"

text \<open>
  The number the gateway itself writes into a response, a status code or a count: an
  integer of magnitude below \<open>10^21\<close>, which renders as its plain decimal numeral.
\<close>

function digits :: "nat \<Rightarrow> string" where
  "digits n =
     (if n < 10 then [''0123456789'' ! n]
      else digits (n div 10) @ [''0123456789'' ! (n mod 10)])"
  by pat_completeness auto
termination
  by (relation "measure id") auto

definition number :: "int \<Rightarrow> json" where
  "number n = JNum (if n < 0 then ''-'' @ digits (nat (- n)) else digits (nat n))"

text \<open>
  Rendering of a value inside a template string, \<^verbatim>\<open>`${v}`\<close>; \<open>None\<close> when the conversion throws
  its \<^verbatim>\<open>TypeError\<close>. An object is converted by its \<^verbatim>\<open>toString\<close>: the inherited one gives
  \<^verbatim>\<open>[object Object]\<close>, and an own key \<^verbatim>\<open>toString\<close>, whose value is never callable, leaves only
  \<^verbatim>\<open>valueOf\<close>, which does not give a primitive, so the conversion throws. An array joins the
  renderings of its elements with commas, \<^verbatim>\<open>null\<close> rendering as the empty string there.
\<close>

fun join :: "string list \<Rightarrow> string" where
  "join [] = []"
| "join [s] = s"
| "join (s # t # ss) = s @ '','' @ join (t # ss)"

fun js_String :: "json \<Rightarrow> string option" where
  "js_String JNull = Some ''null''"
| "js_String (JBool b) = Some (if b then ''true'' else ''false'')"
| "js_String (JNum r) = Some r"
| "js_String (JStr s) = Some s"
| "js_String (JArr xs) =
     map_option join (those (map (\<lambda>x. if x = JNull then Some [] else js_String x) xs))"
| "js_String (JObj kvs) =
     (if map_of kvs ''toString'' \<noteq> None then None else Some ''[object Object]'')"

definition template :: "json option \<Rightarrow> string option" where
  "template v = (case v of None \<Rightarrow> Some ''undefined'' | Some x \<Rightarrow> js_String x)"

text \<open>The \<^verbatim>\<open>TypeError\<close> of a conversion that throws, in the wording of V8.\<close>

definition cannot_convert :: thrown where
  "cannot_convert = Error ''Cannot convert object to primitive value''"

section \<open>BaseTool: the tool contract and its validator\<close>

text \<open>
  \<^verbatim>\<open>SchemaProperty\<close> of the type declarations; every field but the kind is optional there,
  and since \<^verbatim>\<open>BaseTool.inputSchema.properties\<close> is a \<^verbatim>\<open>Record<string, any>\<close> the kind may be
  missing as well.
\<close>

datatype schema_property = SchemaProperty
  (ptype: "string option")
  (pdescription: "string option")
  (penum: "string list option")
  (items: "schema_property option")
  (properties: "(string \<times> schema_property) list option")
  (required: "string list option")

text \<open>
  The fragment of the zod library the validator builds its schemas from:
  \<^verbatim>\<open>z.string()\<close>, \<^verbatim>\<open>z.number()\<close>, \<^verbatim>\<open>z.boolean()\<close>, \<^verbatim>\<open>z.any()\<close>, \<^verbatim>\<open>z.array(e)\<close>,
  \<^verbatim>\<open>z.object(shape)\<close>, \<^verbatim>\<open>z.record(v)\<close> and \<^verbatim>\<open>s.optional()\<close>.
\<close>

datatype zod =
    ZString
  | ZNumber
  | ZBoolean
  | ZAny
  | ZArray zod
  | ZObject "(string \<times> zod) list"
  | ZRecord zod
  | ZOptional zod

text \<open>
  What a schema is given to parse: \<^verbatim>\<open>undefined\<close>, a value, or a function. An object schema
  reads each key of its shape with \<^verbatim>\<open>data[key]\<close>, which finds the own key if there is one
  and otherwise what the object inherits from \<^verbatim>\<open>Object.prototype\<close>: a function under each of
  the names below, \<^verbatim>\<open>undefined\<close> under any other name. (The accessor \<^verbatim>\<open>__proto__\<close> is left
  aside: an object literal cannot declare a property of that name, and a schema with one
  is outside what is modelled here.)
\<close>

datatype js_value = Undefined | Value json | Function

definition object_prototype :: "string list" where
  "object_prototype =
     [''constructor'', ''hasOwnProperty'', ''isPrototypeOf'', ''propertyIsEnumerable'',
      ''toLocaleString'', ''toString'', ''valueOf'', ''__defineGetter__'', ''__defineSetter__'',
      ''__lookupGetter__'', ''__lookupSetter__'']"

definition read_key :: "(string \<times> json) list \<Rightarrow> string \<Rightarrow> js_value" where
  "read_key kvs k =
     (case map_of kvs k of
        Some x \<Rightarrow> Value x
      | None \<Rightarrow> if k \<in> set object_prototype then Function else Undefined)"

text \<open>
  \<open>parse z v\<close> holds when \<^verbatim>\<open>z.parse(v)\<close> returns instead of throwing (zod 3). The primitives
  accept exactly their kind (no coercion); an array schema accepts an array whose elements
  all parse; an object schema accepts an object and parses what it reads under each key of
  its shape, keys outside the shape being stripped, not rejected; a record schema accepts
  an object whose values all parse; \<^verbatim>\<open>any\<close> accepts everything, \<^verbatim>\<open>undefined\<close> included;
  \<^verbatim>\<open>optional\<close> accepts \<^verbatim>\<open>undefined\<close> and whatever the inner schema accepts. A function is
  accepted by \<^verbatim>\<open>any\<close> alone.
\<close>

fun parse :: "zod \<Rightarrow> js_value \<Rightarrow> bool" where
  "parse ZString v = (case v of Value (JStr s) \<Rightarrow> True | _ \<Rightarrow> False)"
| "parse ZNumber v = (case v of Value (JNum r) \<Rightarrow> True | _ \<Rightarrow> False)"
| "parse ZBoolean v = (case v of Value (JBool b) \<Rightarrow> True | _ \<Rightarrow> False)"
| "parse ZAny v = True"
| "parse (ZArray e) v =
     (case v of Value (JArr xs) \<Rightarrow> list_all (\<lambda>x. parse e (Value x)) xs | _ \<Rightarrow> False)"
| "parse (ZObject shape) v =
     (case v of
        Value (JObj kvs) \<Rightarrow> list_all (\<lambda>kz. parse (snd kz) (read_key kvs (fst kz))) shape
      | _ \<Rightarrow> False)"
| "parse (ZRecord e) v =
     (case v of Value (JObj kvs) \<Rightarrow> list_all (\<lambda>kx. parse e (Value (snd kx))) kvs | _ \<Rightarrow> False)"
| "parse (ZOptional z) v = (case v of Undefined \<Rightarrow> True | _ \<Rightarrow> parse z v)"

text \<open>\<^verbatim>\<open>BaseTool.convertPropertyToZod\<close>.\<close>

fun convertPropertyToZod :: "schema_property \<Rightarrow> zod" where
  "convertPropertyToZod (SchemaProperty t d e its props req) =
     (if t = Some ''string'' then ZString
      else if t = Some ''number'' then ZNumber
      else if t = Some ''boolean'' then ZBoolean
      else if t = Some ''array'' then
        (case its of
           Some i \<Rightarrow> ZArray (convertPropertyToZod i)
         | None \<Rightarrow> ZArray ZAny)
      else if t = Some ''object'' then
        (case props of
           Some ps \<Rightarrow> ZObject (map (\<lambda>kp. (fst kp, convertPropertyToZod (snd kp))) ps)
         | None \<Rightarrow> ZRecord ZAny)
      else ZAny)"

text \<open>\<^verbatim>\<open>schema.required?.includes(key)\<close>, negated by the caller.\<close>

definition required_includes :: "string list option \<Rightarrow> string \<Rightarrow> bool" where
  "required_includes req key = (case req of None \<Rightarrow> False | Some ks \<Rightarrow> key \<in> set ks)"

text \<open>\<^verbatim>\<open>BaseTool.jsonSchemaToZod\<close>.\<close>

definition jsonSchemaToZod :: "schema_property \<Rightarrow> zod" where
  "jsonSchemaToZod schema =
     (if ptype schema = Some ''object'' then
        ZObject (map (\<lambda>kp.
                   let zodProp = convertPropertyToZod (snd kp)
                   in (fst kp, if \<not> required_includes (required schema) (fst kp) then ZOptional zodProp
                               else zodProp))
                 (case properties schema of Some ps \<Rightarrow> ps | None \<Rightarrow> []))
      else ZAny)"

text \<open>
  A tool: the three identity fields and \<^verbatim>\<open>execute\<close>. The promise \<^verbatim>\<open>execute\<close> returns either
  rejects with a thrown value or resolves to a value, which may be \<^verbatim>\<open>undefined\<close>.
\<close>

record tool =
  name :: string
  description :: string
  inputSchema :: schema_property
  execute :: "json \<Rightarrow> thrown + json option"

record ToolDefinition =
  name :: string
  description :: string
  inputSchema :: schema_property

text \<open>\<^verbatim>\<open>BaseTool.getToolDefinition\<close>.\<close>

definition getToolDefinition :: "tool \<Rightarrow> ToolDefinition" where
  "getToolDefinition t =
     \<lparr>ToolDefinition.name = tool.name t,
      ToolDefinition.description = tool.description t,
      ToolDefinition.inputSchema = tool.inputSchema t\<rparr>"

text \<open>\<^verbatim>\<open>BaseTool.validate\<close>: the outcome of the parse, as a boolean.\<close>

definition validate :: "tool \<Rightarrow> json \<Rightarrow> bool" where
  "validate t params = parse (jsonSchemaToZod (tool.inputSchema t)) (Value params)"

section \<open>MCPServer: the registry\<close>

text \<open>
  The registry is a JavaScript \<^verbatim>\<open>Map<string, BaseTool>\<close>: an association list in insertion
  order, \<^verbatim>\<open>has\<close> and \<^verbatim>\<open>get\<close> by lookup, \<^verbatim>\<open>set\<close> replacing the value of a key in place or
  appending a new key. Every operation returns the server next to its outcome, so that
  what an operation leaves untouched is a statement about its result. The calls of the
  logger write to the console and have no part in what is returned; they are left out.
\<close>

record MCPServer =
  tools :: "(string \<times> tool) list"

definition new_MCPServer :: MCPServer where
  "new_MCPServer = \<lparr>tools = []\<rparr>"

definition has :: "(string \<times> tool) list \<Rightarrow> string \<Rightarrow> bool" where
  "has m k = (map_of m k \<noteq> None)"

text \<open>\<^verbatim>\<open>MCPServer.registerTool\<close>.\<close>

definition registerTool :: "tool \<Rightarrow> MCPServer \<Rightarrow> (thrown + unit) \<times> MCPServer" where
  "registerTool t s =
     (if has (tools s) (tool.name t) then
        (Inl (Error (''Tool with name '' @ quoted (tool.name t) @ '' is already registered'')), s)
      else (Inr (), s\<lparr>tools := AList.update (tool.name t) t (tools s)\<rparr>))"

text \<open>\<^verbatim>\<open>MCPServer.listTools\<close>.\<close>

definition listTools :: "MCPServer \<Rightarrow> ToolDefinition list" where
  "listTools s = map getToolDefinition (map snd (tools s))"

text \<open>\<^verbatim>\<open>MCPServer.getToolCount\<close> and \<^verbatim>\<open>MCPServer.hasTool\<close>.\<close>

definition getToolCount :: "MCPServer \<Rightarrow> nat" where
  "getToolCount s = length (tools s)"

definition hasTool :: "MCPServer \<Rightarrow> string \<Rightarrow> bool" where
  "hasTool s n = has (tools s) n"

text \<open>
  \<^verbatim>\<open>MCPServer.executeTool\<close>. The name comes from the request and is any truthy value; a key
  of the map is a string, so a name of another kind finds nothing. The messages are
  template strings around the name, and building one throws when the name cannot be
  rendered.
\<close>

definition get :: "(string \<times> tool) list \<Rightarrow> json \<Rightarrow> tool option" where
  "get m k = (case k of JStr n \<Rightarrow> map_of m n | _ \<Rightarrow> None)"

definition executeTool :: "MCPServer \<Rightarrow> json \<Rightarrow> json \<Rightarrow> (thrown + json option) \<times> MCPServer" where
  "executeTool s nm params =
     (case get (tools s) nm of
        None \<Rightarrow>
          (case js_String nm of
             None \<Rightarrow> (Inl cannot_convert, s)
           | Some n \<Rightarrow> (Inl (Error (''Tool '' @ quoted n @ '' not found'')), s))
      | Some t \<Rightarrow>
          if \<not> validate t params then
            (case js_String nm of
               None \<Rightarrow> (Inl cannot_convert, s)
             | Some n \<Rightarrow> (Inl (Error (''Invalid parameters for tool '' @ quoted n)), s))
          else (case execute t params of
                  Inl err \<Rightarrow> (Inl err, s)
                | Inr res \<Rightarrow> (Inr res, s)))"

section \<open>HTTPTransport: the request router\<close>

record mcp_error =
  code :: int
  message :: string

record MCPResponse =
  result :: "json option"
  error :: "mcp_error option"

text \<open>
  The JSON form of a schema and of a tool definition, as a response carries them
  (the order of the keys of an object is of no account in JSON).
\<close>

fun schema_json :: "schema_property \<Rightarrow> json" where
  "schema_json (SchemaProperty t d e its props req) =
     JObj ((case t of None \<Rightarrow> [] | Some x \<Rightarrow> [(''type'', JStr x)])
         @ (case d of None \<Rightarrow> [] | Some x \<Rightarrow> [(''description'', JStr x)])
         @ (case e of None \<Rightarrow> [] | Some xs \<Rightarrow> [(''enum'', JArr (map JStr xs))])
         @ (case its of None \<Rightarrow> [] | Some i \<Rightarrow> [(''items'', schema_json i)])
         @ (case props of None \<Rightarrow> []
            | Some ps \<Rightarrow> [(''properties'', JObj (map (\<lambda>kp. (fst kp, schema_json (snd kp))) ps))])
         @ (case req of None \<Rightarrow> [] | Some ks \<Rightarrow> [(''required'', JArr (map JStr ks))]))"

definition definition_json :: "ToolDefinition \<Rightarrow> json" where
  "definition_json d =
     JObj [(''name'', JStr (ToolDefinition.name d)),
           (''description'', JStr (ToolDefinition.description d)),
           (''inputSchema'', schema_json (ToolDefinition.inputSchema d))]"

text \<open>
  \<^verbatim>\<open>JSON.stringify\<close> of a response, as the JSON value written: a property that is absent or
  \<^verbatim>\<open>undefined\<close> is left out.
\<close>

definition stringify :: "MCPResponse \<Rightarrow> json" where
  "stringify r =
     JObj ((case result r of None \<Rightarrow> [] | Some v \<Rightarrow> [(''result'', v)])
         @ (case error r of None \<Rightarrow> []
            | Some e \<Rightarrow> [(''error'', JObj [(''code'', number (code e)), (''message'', JStr (message e))])]))"

text \<open>
  What is written to the connection: the status and the body (no body for a preflight
  request).
\<close>

record ServerResponse =
  statusCode :: nat
  body :: "json option"

text \<open>
  What arrives: the HTTP method \<^verbatim>\<open>req.method\<close>, the outcome of \<^verbatim>\<open>JSON.parse\<close> on the body (the value, or
  the message of the \<^verbatim>\<open>SyntaxError\<close> it throws), and the clock reading
  \<^verbatim>\<open>new Date().toISOString()\<close> that the health check reports.
\<close>

record IncomingMessage =
  httpMethod :: string
  payload :: "string + json"
  now :: string

text \<open>\<^verbatim>\<open>HTTPTransport.sendSuccessResponse\<close> and \<^verbatim>\<open>HTTPTransport.sendErrorResponse\<close>.\<close>

definition sendSuccessResponse :: "MCPResponse \<Rightarrow> ServerResponse" where
  "sendSuccessResponse mcpResponse = \<lparr>statusCode = 200, body = Some (stringify mcpResponse)\<rparr>"

definition sendErrorResponse :: "nat \<Rightarrow> string \<Rightarrow> string \<Rightarrow> ServerResponse" where
  "sendErrorResponse status errorCode msg =
     \<lparr>statusCode = status,
      body = Some (stringify \<lparr>result = None,
                              error = Some \<lparr>code = int status,
                                            message = errorCode @ '': '' @ msg\<rparr>\<rparr>)\<rparr>"

text \<open>\<^verbatim>\<open>HTTPTransport.handleHealthCheck\<close>.\<close>

definition handleHealthCheck :: "MCPServer \<Rightarrow> string \<Rightarrow> ServerResponse" where
  "handleHealthCheck s timestamp =
     \<lparr>statusCode = 200,
      body = Some (JObj [(''status'', JStr ''ok''),
                         (''service'', JStr ''MCP API Converter''),
                         (''timestamp'', JStr timestamp),
                         (''toolCount'', number (int (getToolCount s)))])\<rparr>"

text \<open>\<^verbatim>\<open>HTTPTransport.parseMCPRequest\<close>, with \<^verbatim>\<open>v?.k\<close> for the optional chaining.\<close>

definition opt_prop :: "json option \<Rightarrow> string \<Rightarrow> json option" where
  "opt_prop v k = (case v of None \<Rightarrow> None | Some x \<Rightarrow> lookup_prop x k)"

definition parseMCPRequest :: "string + json \<Rightarrow> thrown + json" where
  "parseMCPRequest b =
     (case b of
        Inl msg \<Rightarrow> Inl (SyntaxError msg)
      | Inr parsed \<Rightarrow>
          (case get_prop parsed ''method'' of
             Inl err \<Rightarrow> Inl err
           | Inr m \<Rightarrow>
               if \<not> truthy m then Inl (Error ''Missing required field: method'')
               else if m \<noteq> Some (JStr ''tools/list'') \<and> m \<noteq> Some (JStr ''tools/call'') then
                 (case template m of
                    None \<Rightarrow> Inl cannot_convert
                  | Some r \<Rightarrow> Inl (Error (''Unsupported method: '' @ r)))
               else if m = Some (JStr ''tools/call'')
                       \<and> \<not> truthy (opt_prop (lookup_prop parsed ''params'') ''name'') then
                 Inl (Error ''Missing required field: params.name for tools/call'')
               else Inr parsed))"

text \<open>\<^verbatim>\<open>HTTPTransport.handleToolsList\<close>.\<close>

definition handleToolsList :: "MCPServer \<Rightarrow> MCPResponse \<times> MCPServer" where
  "handleToolsList s =
     (\<lparr>result = Some (JObj [(''tools'', JArr (map definition_json (listTools s)))]),
       error = None\<rparr>, s)"

text \<open>
  \<^verbatim>\<open>HTTPTransport.handleToolsCall\<close>. Destructuring \<^verbatim>\<open>undefined\<close> or \<^verbatim>\<open>null\<close> throws a
  \<^verbatim>\<open>TypeError\<close>; \<^verbatim>\<open>args || {}\<close> replaces falsy arguments by the empty object; whatever
  \<^verbatim>\<open>executeTool\<close> throws is caught and becomes the error of the response.
\<close>

definition or_empty :: "json option \<Rightarrow> json" where
  "or_empty args = (case args of None \<Rightarrow> JObj [] | Some a \<Rightarrow> if truthy (Some a) then a else JObj [])"

definition handleToolsCall :: "MCPServer \<Rightarrow> json option \<Rightarrow> (thrown + MCPResponse) \<times> MCPServer" where
  "handleToolsCall s ps =
     (if ps = None \<or> ps = Some JNull then
        (Inl (Error (''Cannot destructure property '' @ quoted ''name'' @ '' of ''
                     @ quoted ''params'' @ '' as it is ''
                     @ (if ps = None then ''undefined'' else ''null'') @ ''.'')), s)
      else
        (case opt_prop ps ''name'' of
           None \<Rightarrow> (Inl (Error ''Tool name is required''), s)
         | Some nm \<Rightarrow>
             if \<not> truthy (Some nm) then (Inl (Error ''Tool name is required''), s)
             else
               (case executeTool s nm (or_empty (opt_prop ps ''arguments'')) of
                  (Inr res, s') \<Rightarrow> (Inr \<lparr>result = res, error = None\<rparr>, s')
                | (Inl err, s') \<Rightarrow>
                    (Inr \<lparr>result = None,
                          error = Some \<lparr>code = - 32603,
                                        message = (case err of
                                                     Error msg \<Rightarrow> msg
                                                   | SyntaxError msg \<Rightarrow> msg
                                                   | NonError \<Rightarrow> ''Tool execution failed'')\<rparr>\<rparr>,
                     s'))))"

text \<open>\<^verbatim>\<open>HTTPTransport.routeRequest\<close>: a throw of a handler is logged and thrown again.\<close>

definition routeRequest :: "MCPServer \<Rightarrow> json \<Rightarrow> (thrown + MCPResponse) \<times> MCPServer" where
  "routeRequest s request =
     (case get_prop request ''method'' of
        Inl err \<Rightarrow> (Inl err, s)
      | Inr m \<Rightarrow>
          if m = Some (JStr ''tools/list'') then
            (case handleToolsList s of (r, s') \<Rightarrow> (Inr r, s'))
          else if m = Some (JStr ''tools/call'') then
            handleToolsCall s (lookup_prop request ''params'')
          else
            (case template m of
               None \<Rightarrow> (Inl cannot_convert, s)
             | Some r \<Rightarrow> (Inl (Error (''Unsupported method: '' @ r)), s)))"

text \<open>
  \<^verbatim>\<open>HTTPTransport.handleRequest\<close>: the preflight and health-check branches, the method
  gate, and for a POST the parse, the routing and the \<^verbatim>\<open>catch\<close> that turns a throw into
  an error response.
\<close>

definition caught :: "thrown \<Rightarrow> ServerResponse" where
  "caught err =
     (case err of
        SyntaxError msg \<Rightarrow> sendErrorResponse 400 ''INVALID_JSON'' ''Request body must be valid JSON''
      | Error msg \<Rightarrow> sendErrorResponse 400 ''BAD_REQUEST'' msg
      | NonError \<Rightarrow> sendErrorResponse 500 ''INTERNAL_ERROR'' ''An unexpected error occurred'')"

definition handleRequest :: "MCPServer \<Rightarrow> IncomingMessage \<Rightarrow> ServerResponse \<times> MCPServer" where
  "handleRequest s req =
     (if httpMethod req = ''OPTIONS'' then (\<lparr>statusCode = 200, body = None\<rparr>, s)
      else if httpMethod req = ''GET'' then (handleHealthCheck s (now req), s)
      else if httpMethod req \<noteq> ''POST'' then
        (sendErrorResponse 405 ''METHOD_NOT_ALLOWED'' ''Only GET and POST requests are supported'', s)
      else
        (case parseMCPRequest (payload req) of
           Inl err \<Rightarrow> (caught err, s)
         | Inr mcpRequest \<Rightarrow>
             (case routeRequest s mcpRequest of
                (Inl err, s') \<Rightarrow> (caught err, s')
              | (Inr mcpResponse, s') \<Rightarrow> (sendSuccessResponse mcpResponse, s'))))"

section \<open>What the specification says, as definitions\<close>

text \<open>
  A run of registrations in order, as the startup code performs them: the first throw
  ends the run.
\<close>

fun registerTools :: "tool list \<Rightarrow> MCPServer \<Rightarrow> (thrown + unit) \<times> MCPServer" where
  "registerTools [] s = (Inr (), s)"
| "registerTools (t # ts) s =
     (case registerTool t s of
        (Inl err, s') \<Rightarrow> (Inl err, s')
      | (Inr u, s') \<Rightarrow> registerTools ts s')"

text \<open>
  Structural satisfaction of a schema by a value, in the words of the specification: an
  object schema wants a keyed structure with every required field present and every
  present declared field satisfying its sub-schema, undeclared fields being ignored; a
  primitive kind wants a value of exactly that kind; an array schema wants a sequence whose
  elements satisfy the element schema; any other kind accepts anything.
\<close>

fun conforms :: "schema_property \<Rightarrow> json \<Rightarrow> bool" where
  "conforms (SchemaProperty t d e its props req) v =
     (if t = Some ''object'' then
        (case v of
           JObj kvs \<Rightarrow>
             list_all (\<lambda>k. map_of kvs k \<noteq> None) (case req of None \<Rightarrow> [] | Some ks \<Rightarrow> ks)
             \<and> list_all (\<lambda>kp. case map_of kvs (fst kp) of
                                 None \<Rightarrow> True
                               | Some x \<Rightarrow> conforms (snd kp) x)
                 (case props of None \<Rightarrow> [] | Some ps \<Rightarrow> ps)
         | _ \<Rightarrow> False)
      else if t = Some ''string'' then (case v of JStr s \<Rightarrow> True | _ \<Rightarrow> False)
      else if t = Some ''number'' then (case v of JNum n \<Rightarrow> True | _ \<Rightarrow> False)
      else if t = Some ''boolean'' then (case v of JBool b \<Rightarrow> True | _ \<Rightarrow> False)
      else if t = Some ''array'' then
        (case v of
           JArr xs \<Rightarrow> (case its of None \<Rightarrow> True | Some i \<Rightarrow> list_all (conforms i) xs)
         | _ \<Rightarrow> False)
      else True)"

text \<open>The five kinds of the schema language.\<close>

definition kinds :: "string option set" where
  "kinds = {Some ''object'', Some ''string'', Some ''number'', Some ''boolean'', Some ''array''}"

text \<open>
  A schema of the schema language: every kind, at every depth, is one of the five, and
  the required names of an object schema are among its declared fields.
\<close>

definition declared :: "schema_property \<Rightarrow> (string \<times> schema_property) list" where
  "declared p = (case properties p of None \<Rightarrow> [] | Some ps \<Rightarrow> ps)"

fun in_language :: "schema_property \<Rightarrow> bool" where
  "in_language (SchemaProperty t d e its props req) =
     (t \<in> kinds
      \<and> (case its of None \<Rightarrow> True | Some i \<Rightarrow> in_language i)
      \<and> list_all (\<lambda>kp. in_language (snd kp)) (case props of None \<Rightarrow> [] | Some ps \<Rightarrow> ps)
      \<and> list_all (\<lambda>k. k \<in> fst ` set (case props of None \<Rightarrow> [] | Some ps \<Rightarrow> ps))
           (case req of None \<Rightarrow> [] | Some ks \<Rightarrow> ks))"

text \<open>
  A schema all of whose declared fields, at this level and below, are listed as required
  by the object schema that declares them.
\<close>

fun all_required :: "schema_property \<Rightarrow> bool" where
  "all_required (SchemaProperty t d e its props req) =
     ((case its of None \<Rightarrow> True | Some i \<Rightarrow> all_required i)
      \<and> list_all (\<lambda>kp. required_includes req (fst kp) \<and> all_required (snd kp))
           (case props of None \<Rightarrow> [] | Some ps \<Rightarrow> ps))"

text \<open>
  \<open>extra_field p v v'\<close>: the value \<open>v'\<close> is \<open>v\<close> with one field set that the schema does
  not declare, in the object \<open>v\<close> itself, in an object under one of its declared fields, or
  in an element of an array, at any depth. The declared names of an object schema are
  distinct, as the keys of an object are.
\<close>

inductive extra_field :: "schema_property \<Rightarrow> json \<Rightarrow> json \<Rightarrow> bool" where
  here:
    "ptype p = Some ''object'' \<Longrightarrow> k \<notin> fst ` set (declared p) \<Longrightarrow>
     extra_field p (JObj kvs) (JObj (AList.update k x kvs))"
| below:
    "ptype p = Some ''object'' \<Longrightarrow> distinct (map fst (declared p)) \<Longrightarrow>
     (k, q) \<in> set (declared p) \<Longrightarrow> map_of kvs k = Some u \<Longrightarrow> extra_field q u u' \<Longrightarrow>
     extra_field p (JObj kvs) (JObj (AList.update k u' kvs))"
| element:
    "ptype p = Some ''array'' \<Longrightarrow> items p = Some q \<Longrightarrow> i < length xs \<Longrightarrow>
     extra_field q (xs ! i) u' \<Longrightarrow> extra_field p (JArr xs) (JArr (xs[i := u']))"

text \<open>
  \<open>lacks_required p v\<close>: the value \<open>v\<close> misses a required field of an object schema, of one
  of the five kinds: a field that \<open>p\<close> itself declares and requires, or such a field of the
  schema of a declared field under which \<open>v\<close> has a value, or of the element schema of an
  array with an element in \<open>v\<close>, at any depth.
\<close>

inductive lacks_required :: "schema_property \<Rightarrow> json \<Rightarrow> bool" where
  missing:
    "ptype p = Some ''object'' \<Longrightarrow> (k, q) \<in> set (declared p) \<Longrightarrow> k \<noteq> ''__proto__'' \<Longrightarrow>
     required_includes (required p) k \<Longrightarrow> ptype q \<in> kinds \<Longrightarrow> lookup_prop v k = None \<Longrightarrow>
     lacks_required p v"
| under:
    "ptype p = Some ''object'' \<Longrightarrow> (k, q) \<in> set (declared p) \<Longrightarrow> k \<noteq> ''__proto__'' \<Longrightarrow>
     map_of kvs k = Some u \<Longrightarrow> lacks_required q u \<Longrightarrow> lacks_required p (JObj kvs)"
| inside:
    "ptype p = Some ''array'' \<Longrightarrow> items p = Some q \<Longrightarrow> u \<in> set xs \<Longrightarrow>
     lacks_required q u \<Longrightarrow> lacks_required p (JArr xs)"

text \<open>
  No declared field that the schema leaves optional bears the name of a member of
  \<^verbatim>\<open>Object.prototype\<close>.
\<close>

definition optional_names_plain :: "schema_property \<Rightarrow> bool" where
  "optional_names_plain p =
     list_all (\<lambda>kp. required_includes (required p) (fst kp) \<or> fst kp \<notin> set object_prototype)
       (declared p)"

text \<open>The error code and the message of a response on the wire, and its two arms.\<close>

definition error_field :: "ServerResponse \<Rightarrow> string \<Rightarrow> json option" where
  "error_field r k = opt_prop (opt_prop (body r) ''error'') k"

definition has_arm :: "ServerResponse \<Rightarrow> string \<Rightarrow> bool" where
  "has_arm r k = (opt_prop (body r) k \<noteq> None)"

text \<open>No tool of the registry resolves to \<^verbatim>\<open>undefined\<close>.\<close>

definition resolves_defined :: "MCPServer \<Rightarrow> bool" where
  "resolves_defined s = (\<forall>(n, t) \<in> set (tools s). \<forall>a. execute t a \<noteq> Inr None)"

section \<open>The scenarios of the specification\<close>

definition string_property :: schema_property where
  "string_property = SchemaProperty (Some ''string'') None None None None None"

definition location_schema :: schema_property where
  "location_schema =
     SchemaProperty (Some ''object'') None None None
       (Some [(''location'', string_property)]) (Some [''location''])"

text \<open>The stub that echoes its argument back.\<close>

definition echo_tool :: tool where
  "echo_tool =
     \<lparr>tool.name = ''get-weather'',
      tool.description = ''echo'',
      tool.inputSchema = location_schema,
      execute = (\<lambda>params. Inr (Some (JObj (case lookup_prop params ''location'' of
                                                None \<Rightarrow> []
                                              | Some v \<Rightarrow> [(''echo'', v)]))))\<rparr>"

definition gateway :: MCPServer where
  "gateway = snd (registerTool echo_tool new_MCPServer)"

definition post :: "json \<Rightarrow> IncomingMessage" where
  "post p = \<lparr>httpMethod = ''POST'', payload = Inr p, now = []\<rparr>"

definition call_payload :: "string \<Rightarrow> string \<Rightarrow> json \<Rightarrow> json" where
  "call_payload m n args =
     JObj [(''method'', JStr m), (''params'', JObj [(''name'', JStr n), (''arguments'', args)])]"

text \<open>A tool that does its work and resolves to nothing.\<close>

definition silent_tool :: tool where
  "silent_tool =
     \<lparr>tool.name = ''notify'',
      tool.description = ''resolves to undefined'',
      tool.inputSchema = SchemaProperty (Some ''object'') None None None (Some []) None,
      execute = (\<lambda>params. Inr None)\<rparr>"

text \<open>
  An object schema with one required field \<open>a\<close>, itself an object that declares one field
  \<open>b\<close> of the given kind and requires nothing.
\<close>

definition nested_schema :: "string \<Rightarrow> schema_property" where
  "nested_schema kind =
     SchemaProperty (Some ''object'') None None None
       (Some [(''a'', SchemaProperty (Some ''object'') None None None
                       (Some [(''b'', SchemaProperty (Some kind) None None None None None)])
                       (Some []))])
       (Some [''a''])"

text \<open>
  An object schema with a required field \<open>address\<close>, an object that declares and requires
  a string \<open>city\<close>, and an optional string field \<open>units\<close>.
\<close>

definition address_schema :: schema_property where
  "address_schema =
     SchemaProperty (Some ''object'') None None None
       (Some [(''address'', SchemaProperty (Some ''object'') None None None
                             (Some [(''city'', string_property)]) (Some [''city''])),
              (''units'', string_property)])
       (Some [''address''])"

text \<open>An object schema with one optional string field, named \<open>constructor\<close>.\<close>

definition constructor_schema :: schema_property where
  "constructor_schema =
     SchemaProperty (Some ''object'') None None None
       (Some [(''constructor'', string_property)]) None"

definition tool_of :: "schema_property \<Rightarrow> tool" where
  "tool_of schema =
     \<lparr>tool.name = ''t'', tool.description = [], tool.inputSchema = schema,
      execute = (\<lambda>params. Inr (Some params))\<rparr>"

section \<open>The registry\<close>

lemma update_fresh: "k \<notin> fst ` set al \<Longrightarrow> AList.update k v al = al @ [(k, v)]"
  by (induction al) auto

lemma has_iff: "has m k \<longleftrightarrow> k \<in> fst ` set m"
  by (simp add: has_def map_of_eq_None_iff)

lemma registerTool_fresh:
  "\<not> has (tools s) (tool.name t) \<Longrightarrow>
   registerTool t s = (Inr (), s\<lparr>tools := tools s @ [(tool.name t, t)]\<rparr>)"
  by (simp add: registerTool_def has_iff update_fresh)

lemma registerTool_present:
  "has (tools s) (tool.name t) \<Longrightarrow>
   registerTool t s =
     (Inl (Error (''Tool with name '' @ quoted (tool.name t) @ '' is already registered'')), s)"
  by (simp add: registerTool_def)

text \<open>
  C3. Whatever the registry holds, registering a second tool under the name of a first
  one just registered throws the error that says the name is already registered and
  leaves the server as the first registration left it: the entry under that name is still
  the first tool, and when the first registration went through the count is one more than
  before it.
\<close>

theorem registerTool_duplicate:
  assumes "tool.name t2 = tool.name t1"
  shows "registerTool t2 (snd (registerTool t1 s)) =
           (Inl (Error (''Tool with name '' @ quoted (tool.name t1) @ '' is already registered'')),
            snd (registerTool t1 s))
         \<and> (\<not> hasTool s (tool.name t1) \<longrightarrow>
              fst (registerTool t1 s) = Inr ()
              \<and> map_of (tools (snd (registerTool t2 (snd (registerTool t1 s))))) (tool.name t1) = Some t1
              \<and> listTools (snd (registerTool t2 (snd (registerTool t1 s))))
                  = listTools s @ [getToolDefinition t1]
              \<and> getToolCount (snd (registerTool t2 (snd (registerTool t1 s)))) = getToolCount s + 1)"
proof (cases "has (tools s) (tool.name t1)")
  case True
  then show ?thesis
    using assms by (simp add: registerTool_present hasTool_def)
next
  case False
  then have "has (tools (snd (registerTool t1 s))) (tool.name t2)"
    using assms by (simp add: registerTool_fresh has_iff)
  moreover have "map_of (tools s) (tool.name t1) = None"
    using False by (simp add: has_def)
  ultimately show ?thesis
    using False assms
    by (simp add: registerTool_present registerTool_fresh hasTool_def
                  listTools_def getToolCount_def map_add_def)
qed

theorem registerTool_duplicate_witness:
  "tool.name (silent_tool\<lparr>tool.name := ''get-weather''\<rparr>) = tool.name echo_tool
   \<and> registerTool (silent_tool\<lparr>tool.name := ''get-weather''\<rparr>) gateway =
       (Inl (Error ''Tool with name 'get-weather' is already registered''), gateway)
   \<and> map_of (tools (snd (registerTool (silent_tool\<lparr>tool.name := ''get-weather''\<rparr>) gateway)))
        ''get-weather'' = Some echo_tool
   \<and> getToolCount (snd (registerTool (silent_tool\<lparr>tool.name := ''get-weather''\<rparr>) gateway)) = 1"
  using registerTool_duplicate [of "silent_tool\<lparr>tool.name := ''get-weather''\<rparr>" echo_tool new_MCPServer]
  by (simp add: gateway_def echo_tool_def silent_tool_def quoted_def hasTool_def has_def
                new_MCPServer_def getToolCount_def registerTool_def)

lemma registerTools_fresh:
  "distinct (map tool.name ts) \<Longrightarrow> \<forall>t \<in> set ts. \<not> has (tools s) (tool.name t) \<Longrightarrow>
   registerTools ts s = (Inr (), s\<lparr>tools := tools s @ map (\<lambda>t. (tool.name t, t)) ts\<rparr>)"
proof (induction ts arbitrary: s)
  case Nil
  then show ?case by simp
next
  case (Cons t ts)
  have fresh: "\<not> has (tools s) (tool.name t)"
    using Cons.prems by simp
  let ?s = "s\<lparr>tools := tools s @ [(tool.name t, t)]\<rparr>"
  have "\<forall>u \<in> set ts. \<not> has (tools ?s) (tool.name u)"
    using Cons.prems by (auto simp: has_iff rev_image_eqI)
  with Cons have "registerTools ts ?s = (Inr (), ?s\<lparr>tools := tools ?s @ map (\<lambda>t. (tool.name t, t)) ts\<rparr>)"
    by simp
  then show ?case
    using fresh by (simp add: registerTool_fresh)
qed

text \<open>
  C8. Registering, into a new server, any number of tools whose names are pairwise distinct
  succeeds, and listing afterwards yields one definition per tool and no other: as many
  definitions as tools, the same names with the same multiplicities, each definition
  carrying the name, the description and the schema of its tool.
\<close>

theorem listTools_complete:
  assumes "distinct (map tool.name ts)"
  shows "fst (registerTools ts new_MCPServer) = Inr ()
         \<and> listTools (snd (registerTools ts new_MCPServer)) = map getToolDefinition ts
         \<and> length (listTools (snd (registerTools ts new_MCPServer))) = length ts
         \<and> mset (map ToolDefinition.name (listTools (snd (registerTools ts new_MCPServer))))
             = mset (map tool.name ts)
         \<and> map ToolDefinition.description (listTools (snd (registerTools ts new_MCPServer)))
             = map tool.description ts
         \<and> map ToolDefinition.inputSchema (listTools (snd (registerTools ts new_MCPServer)))
             = map tool.inputSchema ts
         \<and> getToolCount (snd (registerTools ts new_MCPServer)) = length ts"
proof -
  have "registerTools ts new_MCPServer = (Inr (), \<lparr>tools = map (\<lambda>t. (tool.name t, t)) ts\<rparr>)"
    using assms registerTools_fresh [of ts new_MCPServer]
    by (simp add: new_MCPServer_def has_def)
  then show ?thesis
    by (simp add: listTools_def getToolCount_def getToolDefinition_def comp_def)
qed

theorem listTools_complete_witness:
  "distinct (map tool.name [echo_tool, silent_tool])
   \<and> fst (registerTools [echo_tool, silent_tool] new_MCPServer) = Inr ()
   \<and> listTools (snd (registerTools [echo_tool, silent_tool] new_MCPServer))
       = [getToolDefinition echo_tool, getToolDefinition silent_tool]
   \<and> map ToolDefinition.name (listTools (snd (registerTools [echo_tool, silent_tool] new_MCPServer)))
       = [''get-weather'', ''notify'']"
  using listTools_complete [of "[echo_tool, silent_tool]"]
  by (simp add: echo_tool_def silent_tool_def getToolDefinition_def)

section \<open>The validator\<close>

lemma parse_absent:
  "ptype p \<in> kinds \<Longrightarrow> \<not> parse (convertPropertyToZod p) Undefined"
  "ptype p \<in> kinds \<Longrightarrow> \<not> parse (convertPropertyToZod p) Function"
  by (cases p; auto simp: kinds_def split: option.splits)+

lemma read_key_own: "map_of kvs k = Some x \<Longrightarrow> read_key kvs k = Value x"
  by (simp add: read_key_def)

lemma read_key_absent:
  "map_of kvs k = None \<Longrightarrow> read_key kvs k = Undefined \<or> read_key kvs k = Function"
  by (simp add: read_key_def)

lemma parse_missing:
  "ptype p \<in> kinds \<Longrightarrow> map_of kvs k = None \<Longrightarrow> \<not> parse (convertPropertyToZod p) (read_key kvs k)"
  using read_key_absent [of kvs k] by (auto simp: parse_absent)

lemma conforms_parse:
  "all_required p \<Longrightarrow> conforms p v \<Longrightarrow> parse (convertPropertyToZod p) (Value v)"
proof (induction p arbitrary: v rule: convertPropertyToZod.induct)
  case (1 t d e its props req)
  show ?case
  proof (cases "t = Some ''object''")
    case obj: True
    then obtain kvs where v: "v = JObj kvs"
      using "1.prems"(2) by (cases v) auto
    show ?thesis
    proof (cases props)
      case None
      then show ?thesis using obj v by (simp add: list_all_iff)
    next
      case (Some ps)
      have "parse (convertPropertyToZod (snd kp)) (read_key kvs (fst kp))" if kp: "kp \<in> set ps" for kp
      proof -
        have inc: "required_includes req (fst kp)" and ar: "all_required (snd kp)"
          using "1.prems"(1) kp Some by (auto simp: list_all_iff)
        then obtain ks where req: "req = Some ks" and "fst kp \<in> set ks"
          by (auto simp: required_includes_def split: option.splits)
        then have "map_of kvs (fst kp) \<noteq> None"
          using "1.prems"(2) obj v by (auto simp: list_all_iff)
        then obtain x where x: "map_of kvs (fst kp) = Some x" by auto
        then have "conforms (snd kp) x"
          using "1.prems"(2) obj v Some kp by (auto simp: list_all_iff)
        then show ?thesis
          using "1.IH"(2) [OF _ _ _ _ obj Some kp ar] obj x by (simp add: read_key_own)
      qed
      then show ?thesis
        using obj v Some by (simp add: list_all_iff)
    qed
  next
    case nobj: False
    show ?thesis
    proof (cases "t = Some ''array''")
      case arr: True
      then obtain xs where v: "v = JArr xs"
        using "1.prems"(2) by (cases v) auto
      show ?thesis
      proof (cases its)
        case None
        then show ?thesis using arr v by (simp add: list_all_iff)
      next
        case (Some i)
        have "all_required i" using "1.prems"(1) Some by simp
        moreover have "\<forall>x \<in> set xs. conforms i x"
          using "1.prems"(2) arr v Some by (simp add: list_all_iff)
        ultimately show ?thesis
          using "1.IH"(1) [OF _ _ _ arr Some] arr v Some by (simp add: list_all_iff)
      qed
    next
      case False
      then show ?thesis
        using nobj "1.prems"(2) by (auto split: json.splits)
    qed
  qed
qed

lemma validate_object:
  "ptype (tool.inputSchema t) = Some ''object'' \<Longrightarrow>
   validate t v \<longleftrightarrow>
     (\<exists>kvs. v = JObj kvs \<and>
        (\<forall>kp \<in> set (declared (tool.inputSchema t)).
           parse (if required_includes (required (tool.inputSchema t)) (fst kp)
                  then convertPropertyToZod (snd kp)
                  else ZOptional (convertPropertyToZod (snd kp)))
             (read_key kvs (fst kp))))"
  by (cases v) (auto simp: validate_def jsonSchemaToZod_def declared_def list_all_iff Let_def)

lemma convert_object:
  "ptype p = Some ''object'' \<Longrightarrow> properties p = Some ps \<Longrightarrow>
   convertPropertyToZod p = ZObject (map (\<lambda>kp. (fst kp, convertPropertyToZod (snd kp))) ps)"
  by (cases p) simp

lemma convert_array:
  "ptype p = Some ''array'' \<Longrightarrow> items p = Some q \<Longrightarrow>
   convertPropertyToZod p = ZArray (convertPropertyToZod q)"
  by (cases p) simp

lemma declared_Some:
  "(k, q) \<in> set (declared p) \<Longrightarrow> \<exists>ps. properties p = Some ps \<and> (k, q) \<in> set ps"
  by (cases "properties p") (auto simp: declared_def)

lemma lacks_required_parse:
  "lacks_required p v \<Longrightarrow> \<not> parse (convertPropertyToZod p) (Value v)"
proof (induction rule: lacks_required.induct)
  case (missing p k q v)
  then obtain ps where ps: "properties p = Some ps" and kq: "(k, q) \<in> set ps"
    using declared_Some by blast
  show ?case
  proof (cases v)
    case (JObj kvs)
    then have "\<not> parse (convertPropertyToZod (snd (k, q))) (read_key kvs (fst (k, q)))"
      using missing(5,6) by (simp add: parse_missing)
    then show ?thesis
      using kq JObj unfolding convert_object [OF missing(1) ps]
      by (fastforce simp: list_all_iff)
  qed (simp_all add: convert_object [OF missing(1) ps])
next
  case (under p k q kvs u)
  then obtain ps where ps: "properties p = Some ps" and kq: "(k, q) \<in> set ps"
    using declared_Some by blast
  have "\<not> parse (convertPropertyToZod (snd (k, q))) (read_key kvs (fst (k, q)))"
    using under(4,6) by (simp add: read_key_own)
  then show ?case
    using kq unfolding convert_object [OF under(1) ps]
    by (fastforce simp: list_all_iff)
next
  case (inside p q u xs)
  then show ?case
    by (auto simp: convert_array list_all_iff)
qed

text \<open>
  Stated for every schema of the language, conformance fails in two ways. On a nested
  object: the nested field \<open>b\<close> is optional in its schema, the value \<open>{a: {}}\<close> satisfies the
  schema structurally, and the validator rejects it. On an optional field named
  \<open>constructor\<close>: the value \<open>{}\<close> satisfies the schema, and the validator, which reads the
  inherited \<^verbatim>\<open>constructor\<close> function under that name, rejects it.
\<close>

theorem validate_conformance_counterexample:
  "in_language (nested_schema ''string'')
   \<and> conforms (nested_schema ''string'') (JObj [(''a'', JObj [])])
   \<and> \<not> validate (tool_of (nested_schema ''string'')) (JObj [(''a'', JObj [])])
   \<and> in_language constructor_schema
   \<and> conforms constructor_schema (JObj [])
   \<and> \<not> validate (tool_of constructor_schema) (JObj [])"
  by (simp add: nested_schema_def constructor_schema_def string_property_def tool_of_def
                validate_def jsonSchemaToZod_def kinds_def required_includes_def read_key_def
                object_prototype_def)

text \<open>
  C2 (amended). For a tool whose schema is an object schema: a value that structurally
  satisfies the schema validates, provided the schemas under the declared fields list all
  their own declared fields as required and no optional declared field bears the name of
  a member of \<^verbatim>\<open>Object.prototype\<close>; and a value that misses a required field of one of the
  five kinds, of the schema itself or of an object schema below it, at any depth, does not
  validate. The outcome is the boolean \<open>False\<close>: it names no field.
\<close>

theorem validate_conformance:
  assumes "ptype (tool.inputSchema t) = Some ''object''"
  shows "(list_all (\<lambda>kp. all_required (snd kp)) (declared (tool.inputSchema t))
            \<and> optional_names_plain (tool.inputSchema t)
            \<and> conforms (tool.inputSchema t) v \<longrightarrow> validate t v)
         \<and> (lacks_required (tool.inputSchema t) v \<longrightarrow> validate t v = False)"
proof (intro conjI impI)
  assume a: "list_all (\<lambda>kp. all_required (snd kp)) (declared (tool.inputSchema t))
             \<and> optional_names_plain (tool.inputSchema t)
             \<and> conforms (tool.inputSchema t) v"
  obtain ty d e its props req where S: "tool.inputSchema t = SchemaProperty ty d e its props req"
    by (cases "tool.inputSchema t")
  with assms have ty: "ty = Some ''object''" by simp
  then obtain kvs where v: "v = JObj kvs"
    using a S by (cases v) auto
  have "parse (if required_includes req (fst kp) then convertPropertyToZod (snd kp)
               else ZOptional (convertPropertyToZod (snd kp))) (read_key kvs (fst kp))"
    if kp: "kp \<in> set (declared (tool.inputSchema t))" for kp
  proof (cases "map_of kvs (fst kp)")
    case None
    then have opt: "\<not> required_includes req (fst kp)"
      using a S ty v by (auto simp: required_includes_def list_all_iff split: option.splits)
    then have "fst kp \<notin> set object_prototype"
      using a S kp by (auto simp: optional_names_plain_def list_all_iff)
    then have "read_key kvs (fst kp) = Undefined"
      using None by (simp add: read_key_def)
    then show ?thesis using opt by simp
  next
    case (Some x)
    have "conforms (snd kp) x"
      using a S ty v kp Some by (auto simp: declared_def list_all_iff split: option.splits)
    moreover have "all_required (snd kp)" using a kp by (simp add: list_all_iff)
    ultimately show ?thesis
      using Some by (simp add: conforms_parse read_key_own)
  qed
  then show "validate t v"
    using assms S v by (simp add: validate_object)
next
  assume b: "lacks_required (tool.inputSchema t) v"
  have "\<not> validate t v"
    using b
  proof (cases rule: lacks_required.cases)
    case (missing k q)
    show ?thesis
    proof
      assume "validate t v"
      then obtain kvs where v: "v = JObj kvs"
        and all: "\<forall>kp \<in> set (declared (tool.inputSchema t)).
             parse (if required_includes (required (tool.inputSchema t)) (fst kp)
                    then convertPropertyToZod (snd kp)
                    else ZOptional (convertPropertyToZod (snd kp)))
               (read_key kvs (fst kp))"
        using assms by (auto simp: validate_object)
      from all missing(2,4) have "parse (convertPropertyToZod q) (read_key kvs k)" by fastforce
      moreover have "map_of kvs k = None" using missing(6) v by simp
      ultimately show False using missing(5) by (simp add: parse_missing)
    qed
  next
    case (under k q kvs u)
    show ?thesis
    proof
      assume "validate t v"
      then have "\<forall>kp \<in> set (declared (tool.inputSchema t)).
             parse (if required_includes (required (tool.inputSchema t)) (fst kp)
                    then convertPropertyToZod (snd kp)
                    else ZOptional (convertPropertyToZod (snd kp)))
               (read_key kvs (fst kp))"
        using assms under(1) by (auto simp: validate_object)
      with under(3) have "parse (if required_includes (required (tool.inputSchema t)) k
                    then convertPropertyToZod q
                    else ZOptional (convertPropertyToZod q)) (read_key kvs k)"
        by fastforce
      then have "parse (convertPropertyToZod q) (Value u)"
        using under(5) by (simp add: read_key_own split: if_splits)
      then show False
        using under(6) by (simp add: lacks_required_parse)
    qed
  next
    case (inside q u xs)
    then show ?thesis using assms by simp
  qed
  then show "validate t v = False" by simp
qed


theorem validate_conformance_witness:
  "ptype (tool.inputSchema (tool_of address_schema)) = Some ''object''
   \<and> list_all (\<lambda>kp. all_required (snd kp)) (declared (tool.inputSchema (tool_of address_schema)))
   \<and> optional_names_plain (tool.inputSchema (tool_of address_schema))
   \<and> conforms (tool.inputSchema (tool_of address_schema))
        (JObj [(''address'', JObj [(''city'', JStr ''Paris'')])])
   \<and> validate (tool_of address_schema) (JObj [(''address'', JObj [(''city'', JStr ''Paris'')])])
   \<and> lacks_required (tool.inputSchema (tool_of address_schema)) (JObj [(''address'', JObj [])])
   \<and> validate (tool_of address_schema) (JObj [(''address'', JObj [])]) = False
   \<and> lacks_required (tool.inputSchema (tool_of address_schema)) (JObj [(''units'', JStr ''metric'')])
   \<and> validate (tool_of address_schema) (JObj [(''units'', JStr ''metric'')]) = False"
proof -
  let ?inner = "SchemaProperty (Some ''object'') None None None
                  (Some [(''city'', string_property)]) (Some [''city''])"
  have inner: "lacks_required ?inner (JObj [])"
    by (rule lacks_required.missing [of _ "''city''" string_property])
       (simp_all add: declared_def required_includes_def string_property_def kinds_def)
  have nested: "lacks_required (tool.inputSchema (tool_of address_schema))
                  (JObj [(''address'', JObj [])])"
    by (rule lacks_required.under [OF _ _ _ _ inner, of _ "''address''"])
       (simp_all add: declared_def tool_of_def address_schema_def)
  have top: "lacks_required (tool.inputSchema (tool_of address_schema))
               (JObj [(''units'', JStr ''metric'')])"
    by (rule lacks_required.missing [of _ "''address''" ?inner])
       (simp_all add: declared_def tool_of_def address_schema_def required_includes_def kinds_def)
  have h: "ptype (tool.inputSchema (tool_of address_schema)) = Some ''object''"
    by (simp add: tool_of_def address_schema_def)
  have pre: "list_all (\<lambda>kp. all_required (snd kp)) (declared (tool.inputSchema (tool_of address_schema)))
     \<and> optional_names_plain (tool.inputSchema (tool_of address_schema))
     \<and> conforms (tool.inputSchema (tool_of address_schema))
          (JObj [(''address'', JObj [(''city'', JStr ''Paris'')])])"
    by (simp add: tool_of_def address_schema_def string_property_def declared_def
                  optional_names_plain_def required_includes_def object_prototype_def)
  show ?thesis
    using h pre nested top
          validate_conformance [OF h, of "JObj [(''address'', JObj [(''city'', JStr ''Paris'')])]"]
          validate_conformance [OF h, of "JObj [(''address'', JObj [])]"]
          validate_conformance [OF h, of "JObj [(''units'', JStr ''metric'')]"]
    by simp
qed




lemma read_key_update_other: "k' \<noteq> k \<Longrightarrow> read_key (AList.update k x kvs) k' = read_key kvs k'"
  by (simp add: read_key_def update_conv')

lemma read_key_update_same: "read_key (AList.update k x kvs) k = Value x"
  by (simp add: read_key_def update_conv')

lemma extra_field_parse:
  "extra_field p v v' \<Longrightarrow> parse (convertPropertyToZod p) (Value v) \<Longrightarrow>
   parse (convertPropertyToZod p) (Value v')"
proof (induction rule: extra_field.induct)
  case (here p k kvs x)
  show ?case
  proof (cases "properties p")
    case None
    then show ?thesis using here by (cases p) (simp add: list_all_iff)
  next
    case (Some ps)
    have "read_key (AList.update k x kvs) (fst kp) = read_key kvs (fst kp)" if "kp \<in> set ps" for kp
      using that here(2) Some by (intro read_key_update_other) (auto simp: declared_def)
    then show ?thesis
      using here Some by (simp add: convert_object list_all_iff)
  qed
next
  case (below p k q kvs u u')
  then obtain ps where ps: "properties p = Some ps"
    using declared_Some by blast
  have "parse (convertPropertyToZod (snd kp)) (read_key (AList.update k u' kvs) (fst kp))"
    if kp: "kp \<in> set ps" for kp
  proof (cases "fst kp = k")
    case True
    then have "snd kp = q"
      using below(2,3) kp ps by (metis declared_def eq_key_imp_eq_value option.simps(5) prod.collapse)
    moreover have "parse (convertPropertyToZod q) (Value u)"
      using below(1,3,4,7) ps
      by (fastforce simp: convert_object list_all_iff declared_def read_key_def)
    ultimately show ?thesis
      using True below.IH by (simp add: read_key_update_same)
  next
    case False
    then show ?thesis
      using below(1,7) ps kp by (simp add: convert_object list_all_iff read_key_update_other)
  qed
  then show ?case
    using below(1) ps by (simp add: convert_object list_all_iff)
next
  case (element p q i xs u')
  then have z: "convertPropertyToZod p = ZArray (convertPropertyToZod q)"
    by (cases p) simp
  have "parse (convertPropertyToZod q) (Value x)" if "x \<in> set (xs[i := u'])" for x
  proof (cases "x = u'")
    case True
    then show ?thesis
      using element z by (auto simp: list_all_iff)
  next
    case False
    then have "x \<in> set xs" using that set_update_subset_insert by fastforce
    then show ?thesis using element(6) z by (simp add: list_all_iff)
  qed
  then show ?case using z by (simp add: list_all_iff)
qed

text \<open>
  C7. A value that validates still validates after a field that the schema does not
  declare is set in it, be it in the top-level object, in a nested object under a declared
  field, or in an array element, at any depth.
\<close>

theorem undeclared_field_accepted:
  assumes "extra_field (tool.inputSchema t) v v'" and "validate t v"
  shows "validate t v'"
  using assms(1)
proof (cases rule: extra_field.cases)
  case (here k kvs x)
  have "read_key (AList.update k x kvs) (fst kp) = read_key kvs (fst kp)"
    if "kp \<in> set (declared (tool.inputSchema t))" for kp
    using that here(4) by (intro read_key_update_other) auto
  then show ?thesis
    using here(1-3) assms(2) by (simp add: validate_object)
next
  case (below k q kvs u u')
  let ?z = "\<lambda>kp. if required_includes (required (tool.inputSchema t)) (fst kp)
                  then convertPropertyToZod (snd kp)
                  else ZOptional (convertPropertyToZod (snd kp))"
  have old: "\<forall>kp \<in> set (declared (tool.inputSchema t)). parse (?z kp) (read_key kvs (fst kp))"
    using assms(2) below(1,3) by (simp add: validate_object)
  have "parse (?z kp) (read_key (AList.update k u' kvs) (fst kp))"
    if kp: "kp \<in> set (declared (tool.inputSchema t))" for kp
  proof (cases "fst kp = k")
    case True
    then have q: "snd kp = q"
      using below(4,5) kp by (metis eq_key_imp_eq_value prod.collapse)
    have "parse (?z (k, q)) (read_key kvs k)"
      using old below(5) by fastforce
    then have "parse (convertPropertyToZod q) (Value u)"
      using below(6) by (simp add: read_key_own split: if_splits)
    then have "parse (convertPropertyToZod q) (Value u')"
      using below(7) by (simp add: extra_field_parse)
    then show ?thesis
      using True q by (simp add: read_key_update_same)
  next
    case False
    then show ?thesis
      using old kp by (simp add: read_key_update_other)
  qed
  then show ?thesis
    using below(2,3) by (simp add: validate_object)
next
  case (element q i xs u')
  then show ?thesis
    by (simp add: validate_def jsonSchemaToZod_def)
qed

theorem undeclared_field_accepted_witness:
  "extra_field (tool.inputSchema (tool_of (nested_schema ''string'')))
     (JObj [(''a'', JObj [(''b'', JStr ''x'')])])
     (JObj [(''a'', JObj [(''b'', JStr ''x''), (''extra'', JNum ''1'')])])
   \<and> validate (tool_of (nested_schema ''string'')) (JObj [(''a'', JObj [(''b'', JStr ''x'')])])
   \<and> validate (tool_of (nested_schema ''string''))
        (JObj [(''a'', JObj [(''b'', JStr ''x''), (''extra'', JNum ''1'')])])
   \<and> extra_field (tool.inputSchema (tool_of location_schema))
        (JObj [(''location'', JStr ''London'')])
        (JObj [(''location'', JStr ''London''), (''units'', JStr ''metric'')])
   \<and> validate (tool_of location_schema) (JObj [(''location'', JStr ''London'')])
   \<and> validate (tool_of location_schema)
        (JObj [(''location'', JStr ''London''), (''units'', JStr ''metric'')])"
proof -
  let ?inner = "SchemaProperty (Some ''object'') None None None
                  (Some [(''b'', SchemaProperty (Some ''string'') None None None None None)])
                  (Some [])"
  have inner: "extra_field ?inner (JObj [(''b'', JStr ''x'')])
                 (JObj (AList.update ''extra'' (JNum ''1'') [(''b'', JStr ''x'')]))"
    by (rule extra_field.here) (simp_all add: declared_def)
  have "extra_field (tool.inputSchema (tool_of (nested_schema ''string'')))
          (JObj [(''a'', JObj [(''b'', JStr ''x'')])])
          (JObj (AList.update ''a'' (JObj (AList.update ''extra'' (JNum ''1'') [(''b'', JStr ''x'')]))
                   [(''a'', JObj [(''b'', JStr ''x'')])]))"
    by (rule extra_field.below [OF _ _ _ _ inner])
       (simp_all add: declared_def tool_of_def nested_schema_def)
  then have nested: "extra_field (tool.inputSchema (tool_of (nested_schema ''string'')))
     (JObj [(''a'', JObj [(''b'', JStr ''x'')])])
     (JObj [(''a'', JObj [(''b'', JStr ''x''), (''extra'', JNum ''1'')])])"
    by simp
  have "extra_field (tool.inputSchema (tool_of location_schema))
          (JObj [(''location'', JStr ''London'')])
          (JObj (AList.update ''units'' (JStr ''metric'') [(''location'', JStr ''London'')]))"
    by (rule extra_field.here) (simp_all add: declared_def tool_of_def location_schema_def)
  then have top: "extra_field (tool.inputSchema (tool_of location_schema))
        (JObj [(''location'', JStr ''London'')])
        (JObj [(''location'', JStr ''London''), (''units'', JStr ''metric'')])"
    by simp
  have v1: "validate (tool_of (nested_schema ''string'')) (JObj [(''a'', JObj [(''b'', JStr ''x'')])])"
    by (simp add: nested_schema_def tool_of_def validate_def jsonSchemaToZod_def
                  required_includes_def read_key_def)
  have v2: "validate (tool_of location_schema) (JObj [(''location'', JStr ''London'')])"
    by (simp add: location_schema_def string_property_def tool_of_def validate_def
                  jsonSchemaToZod_def required_includes_def read_key_def)
  show ?thesis
    using nested top v1 v2 undeclared_field_accepted [OF nested v1]
          undeclared_field_accepted [OF top v2]
    by simp
qed

section \<open>The router\<close>

lemma number_codes:
  "number 400 = JNum ''400''" "number 405 = JNum ''405''" "number 500 = JNum ''500''"
  "number (- 32603) = JNum ''-32603''"
  by (simp_all add: number_def)

lemma gateway_tools: "tools gateway = [(''get-weather'', echo_tool)]"
  by (simp add: gateway_def registerTool_def new_MCPServer_def has_def echo_tool_def)

lemma caught_Error:
  "caught (Error msg) =
     \<lparr>statusCode = 400,
      body = Some (JObj [(''error'',
               JObj [(''code'', JNum ''400''), (''message'', JStr (''BAD_REQUEST: '' @ msg))])])\<rparr>"
  by (simp add: caught_def sendErrorResponse_def stringify_def number_codes)

text \<open>
  The payload \<open>{"method": "unknown"}\<close> is answered with status 400 and an error whose code
  is the number 400, the tag \<^verbatim>\<open>BAD_REQUEST\<close> opening the message: the code is not the string
  \<^verbatim>\<open>TransportError\<close>.
\<close>

theorem unknown_method_counterexample:
  "fst (handleRequest gateway (post (JObj [(''method'', JStr ''unknown'')]))) =
     \<lparr>statusCode = 400,
      body = Some (JObj [(''error'',
                          JObj [(''code'', JNum ''400''),
                                (''message'', JStr ''BAD_REQUEST: Unsupported method: unknown'')])])\<rparr>
   \<and> error_field (fst (handleRequest gateway (post (JObj [(''method'', JStr ''unknown'')])))) ''code''
       \<noteq> Some (JStr ''TransportError'')"
  by (simp add: handleRequest_def post_def parseMCPRequest_def get_prop_def template_def
                caught_Error error_field_def opt_prop_def)

text \<open>
  C4 (amended). A POST whose payload has no \<^verbatim>\<open>method\<close>, or one that is neither
  \<^verbatim>\<open>tools/list\<close> nor \<^verbatim>\<open>tools/call\<close>, is answered with status 400 and an error whose code is
  400 and whose message is \<^verbatim>\<open>BAD_REQUEST:\<close> followed by the reason: the method is missing
  (absent or falsy), or unsupported, with its rendering, or cannot be rendered, or the
  payload is \<^verbatim>\<open>null\<close>. The server is returned as it was, and the response is the same
  whatever the registry holds.
\<close>

theorem unknown_method_rejected:
  assumes "httpMethod req = ''POST''" and "payload req = Inr p"
    and "lookup_prop p ''method'' \<noteq> Some (JStr ''tools/list'')"
    and "lookup_prop p ''method'' \<noteq> Some (JStr ''tools/call'')"
  shows "handleRequest s req =
           (\<lparr>statusCode = 400,
             body = Some (JObj [(''error'',
                      JObj [(''code'', JNum ''400''),
                            (''message'', JStr (''BAD_REQUEST: '' @
                               (if p = JNull then ''Cannot read properties of null (reading 'method')''
                                else if \<not> truthy (lookup_prop p ''method'')
                                     then ''Missing required field: method''
                                else case template (lookup_prop p ''method'') of
                                       Some r \<Rightarrow> ''Unsupported method: '' @ r
                                     | None \<Rightarrow> ''Cannot convert object to primitive value'')))])])\<rparr>, s)
         \<and> fst (handleRequest s' req) = fst (handleRequest s req)"
  using assms
  by (simp add: handleRequest_def parseMCPRequest_def get_prop_def quoted_def
                caught_Error cannot_convert_def split: option.splits)

theorem unknown_method_rejected_witness:
  "httpMethod (post (JObj [])) = ''POST'' \<and> payload (post (JObj [])) = Inr (JObj [])
   \<and> lookup_prop (JObj []) ''method'' \<noteq> Some (JStr ''tools/list'')
   \<and> lookup_prop (JObj []) ''method'' \<noteq> Some (JStr ''tools/call'')
   \<and> handleRequest gateway (post (JObj [])) =
       (\<lparr>statusCode = 400,
         body = Some (JObj [(''error'',
                  JObj [(''code'', JNum ''400''),
                        (''message'', JStr ''BAD_REQUEST: Missing required field: method'')])])\<rparr>,
        gateway)
   \<and> fst (handleRequest new_MCPServer (post (JObj []))) = fst (handleRequest gateway (post (JObj [])))
   \<and> lookup_prop (JObj [(''method'', JObj [(''toString'', JNum ''1'')])]) ''method''
       \<noteq> Some (JStr ''tools/list'')
   \<and> lookup_prop (JObj [(''method'', JObj [(''toString'', JNum ''1'')])]) ''method''
       \<noteq> Some (JStr ''tools/call'')
   \<and> handleRequest gateway (post (JObj [(''method'', JObj [(''toString'', JNum ''1'')])])) =
       (\<lparr>statusCode = 400,
         body = Some (JObj [(''error'',
                  JObj [(''code'', JNum ''400''),
                        (''message'', JStr ''BAD_REQUEST: Cannot convert object to primitive value'')])])\<rparr>,
        gateway)"
  using unknown_method_rejected [of "post (JObj [])" "JObj []" gateway new_MCPServer]
        unknown_method_rejected [of "post (JObj [(''method'', JObj [(''toString'', JNum ''1'')])])"
           "JObj [(''method'', JObj [(''toString'', JNum ''1'')])]" gateway gateway]
  by (simp add: post_def template_def)

text \<open>What a POST that calls a tool comes to.\<close>

lemma handleRequest_call:
  assumes "httpMethod req = ''POST''" and "payload req = Inr p"
    and "lookup_prop p ''method'' = Some (JStr ''tools/call'')"
    and "opt_prop (lookup_prop p ''params'') ''name'' = Some nm" and "truthy (Some nm)"
  shows "handleRequest s req =
           (case executeTool s nm (or_empty (opt_prop (lookup_prop p ''params'') ''arguments'')) of
              (Inr res, s') \<Rightarrow> (sendSuccessResponse \<lparr>result = res, error = None\<rparr>, s')
            | (Inl err, s') \<Rightarrow>
                (sendSuccessResponse
                   \<lparr>result = None,
                    error = Some \<lparr>code = - 32603,
                                  message = (case err of Error msg \<Rightarrow> msg | SyntaxError msg \<Rightarrow> msg
                                             | NonError \<Rightarrow> ''Tool execution failed'')\<rparr>\<rparr>, s'))"
proof -
  have nn: "p \<noteq> JNull" using assms(3) by auto
  obtain pv where ps: "lookup_prop p ''params'' = Some pv" "lookup_prop pv ''name'' = Some nm"
    using assms(4) by (auto simp: opt_prop_def split: option.splits)
  then have pn: "pv \<noteq> JNull" by auto
  have "parseMCPRequest (payload req) = Inr p"
    using assms nn by (simp add: parseMCPRequest_def get_prop_def)
  moreover have "routeRequest s p =
     (case executeTool s nm (or_empty (opt_prop (lookup_prop p ''params'') ''arguments'')) of
        (Inr res, s') \<Rightarrow> (Inr \<lparr>result = res, error = None\<rparr>, s')
      | (Inl err, s') \<Rightarrow>
          (Inr \<lparr>result = None,
                error = Some \<lparr>code = - 32603,
                              message = (case err of Error msg \<Rightarrow> msg | SyntaxError msg \<Rightarrow> msg
                                         | NonError \<Rightarrow> ''Tool execution failed'')\<rparr>\<rparr>, s'))"
    using assms(3-5) nn ps pn
    by (simp add: routeRequest_def get_prop_def handleToolsCall_def opt_prop_def)
  ultimately show ?thesis
    using assms(1)
    by (simp add: handleRequest_def split: prod.splits sum.splits)
qed

lemma error_response:
  "sendSuccessResponse \<lparr>result = None, error = Some \<lparr>code = - 32603, message = msg\<rparr>\<rparr> =
     \<lparr>statusCode = 200,
      body = Some (JObj [(''error'', JObj [(''code'', JNum ''-32603''), (''message'', JStr msg)])])\<rparr>"
  by (simp add: sendSuccessResponse_def stringify_def number_codes)

text \<open>
  A call of a tool that is not registered is answered with the code \<open>-32603\<close> and a message
  that shows the requested name alone: the name of the tool that is registered,
  \<^verbatim>\<open>get-weather\<close>, occurs nowhere in it.
\<close>

theorem tool_not_found_counterexample:
  "hasTool gateway ''get-weather''
   \<and> fst (handleRequest gateway (post (call_payload ''tools/call'' ''does-not-exist'' (JObj [])))) =
       \<lparr>statusCode = 200,
        body = Some (JObj [(''error'',
                 JObj [(''code'', JNum ''-32603''),
                       (''message'', JStr ''Tool 'does-not-exist' not found'')])])\<rparr>
   \<and> \<not> sublist ''get-weather'' ''Tool 'does-not-exist' not found''"
proof -
  have "\<not> sublist ''get-weather'' ''Tool 'does-not-exist' not found''"
    by (simp add: sublist_Cons_right)
  moreover have "executeTool gateway (JStr ''does-not-exist'') (JObj []) =
      (Inl (Error ''Tool 'does-not-exist' not found''), gateway)"
    by (simp add: executeTool_def get_def gateway_tools quoted_def)
  ultimately show ?thesis
    using handleRequest_call [of "post (call_payload ''tools/call'' ''does-not-exist'' (JObj []))"
            "call_payload ''tools/call'' ''does-not-exist'' (JObj [])" "JStr ''does-not-exist''" gateway]
    by (simp add: post_def call_payload_def opt_prop_def or_empty_def hasTool_def has_def
                  gateway_tools error_response)
qed

text \<open>
  C5 (amended). A call whose name finds no tool in the registry is answered, with status
  200, by an error whose code is \<open>-32603\<close> and whose message is \<^verbatim>\<open>Tool '<name>' not found\<close>,
  the rendering of the requested name between the quotes and nothing else from the
  registry, or, when the name is an object that cannot be rendered, the message of the
  \<^verbatim>\<open>TypeError\<close> of the conversion; the server is returned as it was.
\<close>

theorem tool_not_found:
  assumes "httpMethod req = ''POST''" and "payload req = Inr p"
    and "lookup_prop p ''method'' = Some (JStr ''tools/call'')"
    and "opt_prop (lookup_prop p ''params'') ''name'' = Some nm" and "truthy (Some nm)"
    and "get (tools s) nm = None"
  shows "handleRequest s req =
           (\<lparr>statusCode = 200,
             body = Some (JObj [(''error'',
                      JObj [(''code'', JNum ''-32603''),
                            (''message'',
                             JStr (case js_String nm of
                                     Some n \<Rightarrow> ''Tool '' @ quoted n @ '' not found''
                                   | None \<Rightarrow> ''Cannot convert object to primitive value''))])])\<rparr>,
            s)"
  using assms(6) handleRequest_call [OF assms(1-5), of s]
  by (simp add: executeTool_def error_response cannot_convert_def split: option.splits)

theorem tool_not_found_witness:
  "httpMethod (post (call_payload ''tools/call'' ''does-not-exist'' (JObj []))) = ''POST''
   \<and> payload (post (call_payload ''tools/call'' ''does-not-exist'' (JObj [])))
       = Inr (call_payload ''tools/call'' ''does-not-exist'' (JObj []))
   \<and> lookup_prop (call_payload ''tools/call'' ''does-not-exist'' (JObj [])) ''method''
       = Some (JStr ''tools/call'')
   \<and> opt_prop (lookup_prop (call_payload ''tools/call'' ''does-not-exist'' (JObj [])) ''params'') ''name''
       = Some (JStr ''does-not-exist'')
   \<and> truthy (Some (JStr ''does-not-exist''))
   \<and> get (tools gateway) (JStr ''does-not-exist'') = None
   \<and> handleRequest gateway (post (call_payload ''tools/call'' ''does-not-exist'' (JObj []))) =
       (\<lparr>statusCode = 200,
         body = Some (JObj [(''error'',
                  JObj [(''code'', JNum ''-32603''),
                        (''message'', JStr ''Tool 'does-not-exist' not found'')])])\<rparr>,
        gateway)
   \<and> truthy (Some (JObj [(''toString'', JNum ''1'')]))
   \<and> get (tools gateway) (JObj [(''toString'', JNum ''1'')]) = None
   \<and> handleRequest gateway
        (post (JObj [(''method'', JStr ''tools/call''),
                     (''params'', JObj [(''name'', JObj [(''toString'', JNum ''1'')])])])) =
       (\<lparr>statusCode = 200,
         body = Some (JObj [(''error'',
                  JObj [(''code'', JNum ''-32603''),
                        (''message'', JStr ''Cannot convert object to primitive value'')])])\<rparr>,
        gateway)"
  using tool_not_found [of "post (call_payload ''tools/call'' ''does-not-exist'' (JObj []))"
          "call_payload ''tools/call'' ''does-not-exist'' (JObj [])" "JStr ''does-not-exist''" gateway]
        tool_not_found [of "post (JObj [(''method'', JStr ''tools/call''),
                     (''params'', JObj [(''name'', JObj [(''toString'', JNum ''1'')])])])"
          "JObj [(''method'', JStr ''tools/call''),
                 (''params'', JObj [(''name'', JObj [(''toString'', JNum ''1'')])])]"
          "JObj [(''toString'', JNum ''1'')]" gateway]
  by (simp add: post_def call_payload_def opt_prop_def get_def gateway_tools quoted_def)

text \<open>
  Arguments \<open>{}\<close> for the tool that requires \<^verbatim>\<open>location\<close> are answered with a message that
  shows the name of the tool and no field: \<^verbatim>\<open>location\<close> occurs nowhere in it.
\<close>

theorem invalid_parameters_counterexample:
  "fst (handleRequest gateway (post (call_payload ''tools/call'' ''get-weather'' (JObj [])))) =
       \<lparr>statusCode = 200,
        body = Some (JObj [(''error'',
                 JObj [(''code'', JNum ''-32603''),
                       (''message'', JStr (''Invalid parameters for tool '' @ quoted ''get-weather''))])])\<rparr>
   \<and> \<not> sublist ''location'' (''Invalid parameters for tool '' @ quoted ''get-weather'')"
proof -
  have "\<not> sublist ''location'' (''Invalid parameters for tool '' @ quoted ''get-weather'')"
    by (simp add: sublist_Cons_right quoted_def)
  moreover have "executeTool gateway (JStr ''get-weather'') (JObj []) =
      (Inl (Error (''Invalid parameters for tool '' @ quoted ''get-weather'')), gateway)"
    by (simp add: executeTool_def get_def gateway_tools validate_def echo_tool_def
                  location_schema_def string_property_def jsonSchemaToZod_def required_includes_def
                  read_key_def object_prototype_def)
  ultimately show ?thesis
    using handleRequest_call [of "post (call_payload ''tools/call'' ''get-weather'' (JObj []))"
            "call_payload ''tools/call'' ''get-weather'' (JObj [])" "JStr ''get-weather''" gateway]
    by (simp add: post_def call_payload_def opt_prop_def or_empty_def error_response)
qed

text \<open>
  C6 (amended). The outcome of the validator is a boolean. A call whose arguments the tool
  found under the name does not validate is answered, with status 200, by an error whose
  code is \<open>-32603\<close> and whose message is \<^verbatim>\<open>Invalid parameters for tool '<name>'\<close>: the same
  response whichever field is at fault, with no list of violations; the server is returned
  as it was. (A name that finds a tool is a string.)
\<close>

theorem invalid_parameters:
  assumes "httpMethod req = ''POST''" and "payload req = Inr p"
    and "lookup_prop p ''method'' = Some (JStr ''tools/call'')"
    and "opt_prop (lookup_prop p ''params'') ''name'' = Some nm" and "truthy (Some nm)"
    and "get (tools s) nm = Some t"
    and "validate t (or_empty (opt_prop (lookup_prop p ''params'') ''arguments'')) = False"
  shows "\<exists>n. nm = JStr n
           \<and> handleRequest s req =
               (\<lparr>statusCode = 200,
                 body = Some (JObj [(''error'',
                          JObj [(''code'', JNum ''-32603''),
                                (''message'',
                                 JStr (''Invalid parameters for tool '' @ quoted n))])])\<rparr>,
                s)"
proof -
  obtain n where n: "nm = JStr n"
    using assms(6) by (cases nm) (simp_all add: get_def)
  then show ?thesis
    using assms(6,7) handleRequest_call [OF assms(1-5), of s]
    by (simp add: executeTool_def error_response)
qed

theorem invalid_parameters_witness:
  "httpMethod (post (call_payload ''tools/call'' ''get-weather'' (JObj [(''location'', JNum ''7'')]))) = ''POST''
   \<and> payload (post (call_payload ''tools/call'' ''get-weather'' (JObj [(''location'', JNum ''7'')])))
       = Inr (call_payload ''tools/call'' ''get-weather'' (JObj [(''location'', JNum ''7'')]))
   \<and> lookup_prop (call_payload ''tools/call'' ''get-weather'' (JObj [(''location'', JNum ''7'')])) ''method''
       = Some (JStr ''tools/call'')
   \<and> opt_prop (lookup_prop (call_payload ''tools/call'' ''get-weather'' (JObj [(''location'', JNum ''7'')]))
                 ''params'') ''name''
       = Some (JStr ''get-weather'')
   \<and> truthy (Some (JStr ''get-weather''))
   \<and> get (tools gateway) (JStr ''get-weather'') = Some echo_tool
   \<and> validate echo_tool
        (or_empty (opt_prop (lookup_prop (call_payload ''tools/call'' ''get-weather''
                                            (JObj [(''location'', JNum ''7'')])) ''params'') ''arguments''))
       = False
   \<and> handleRequest gateway
        (post (call_payload ''tools/call'' ''get-weather'' (JObj [(''location'', JNum ''7'')]))) =
       (\<lparr>statusCode = 200,
         body = Some (JObj [(''error'',
                  JObj [(''code'', JNum ''-32603''),
                        (''message'', JStr (''Invalid parameters for tool '' @ quoted ''get-weather''))])])\<rparr>,
        gateway)"
  using invalid_parameters [of "post (call_payload ''tools/call'' ''get-weather'' (JObj [(''location'', JNum ''7'')]))"
          "call_payload ''tools/call'' ''get-weather'' (JObj [(''location'', JNum ''7'')])"
          "JStr ''get-weather''" gateway echo_tool]
  by (simp add: post_def call_payload_def opt_prop_def get_def gateway_tools or_empty_def
                validate_def echo_tool_def location_schema_def string_property_def
                jsonSchemaToZod_def required_includes_def read_key_def)

text \<open>
  The request of the scenario, with the method \<^verbatim>\<open>call\<close>, does not reach the tool: the
  parser knows the methods \<^verbatim>\<open>tools/list\<close> and \<^verbatim>\<open>tools/call\<close> only.
\<close>

theorem call_scenario_counterexample:
  "fst (handleRequest gateway
          (post (call_payload ''call'' ''get-weather'' (JObj [(''location'', JStr ''London'')])))) =
     \<lparr>statusCode = 400,
      body = Some (JObj [(''error'',
               JObj [(''code'', JNum ''400''),
                     (''message'', JStr ''BAD_REQUEST: Unsupported method: call'')])])\<rparr>
   \<and> body (fst (handleRequest gateway
          (post (call_payload ''call'' ''get-weather'' (JObj [(''location'', JStr ''London'')])))))
       \<noteq> Some (JObj [(''result'', JObj [(''echo'', JStr ''London'')])])"
  by (simp add: handleRequest_def post_def call_payload_def parseMCPRequest_def get_prop_def
                template_def caught_Error)

text \<open>
  C1 (amended). With the echoing stub registered as \<^verbatim>\<open>get-weather\<close> under the schema of the
  scenario, the request
  \<open>{"method": "tools/call", "params": {"name": "get-weather", "arguments": {"location": "London"}}}\<close>
  parses, its arguments validate, the stub resolves to \<open>{"echo": "London"}\<close>, and the
  response is \<open>{"result": {"echo": "London"}}\<close> with status 200, the server being returned
  as it was.
\<close>

theorem call_scenario:
  "parseMCPRequest (Inr (call_payload ''tools/call'' ''get-weather'' (JObj [(''location'', JStr ''London'')])))
     = Inr (call_payload ''tools/call'' ''get-weather'' (JObj [(''location'', JStr ''London'')]))
   \<and> validate echo_tool (JObj [(''location'', JStr ''London'')])
   \<and> execute echo_tool (JObj [(''location'', JStr ''London'')])
       = Inr (Some (JObj [(''echo'', JStr ''London'')]))
   \<and> handleRequest gateway
        (post (call_payload ''tools/call'' ''get-weather'' (JObj [(''location'', JStr ''London'')]))) =
       (\<lparr>statusCode = 200,
         body = Some (JObj [(''result'', JObj [(''echo'', JStr ''London'')])])\<rparr>, gateway)"
proof -
  have v: "validate echo_tool (JObj [(''location'', JStr ''London'')])"
    by (simp add: validate_def echo_tool_def location_schema_def string_property_def
                  jsonSchemaToZod_def required_includes_def read_key_def)
  have x: "execute echo_tool (JObj [(''location'', JStr ''London'')])
             = Inr (Some (JObj [(''echo'', JStr ''London'')]))"
    by (simp add: echo_tool_def)
  have "executeTool gateway (JStr ''get-weather'') (JObj [(''location'', JStr ''London'')]) =
      (Inr (Some (JObj [(''echo'', JStr ''London'')])), gateway)"
    using v x by (simp add: executeTool_def get_def gateway_tools)
  then have "handleRequest gateway
        (post (call_payload ''tools/call'' ''get-weather'' (JObj [(''location'', JStr ''London'')]))) =
       (\<lparr>statusCode = 200,
         body = Some (JObj [(''result'', JObj [(''echo'', JStr ''London'')])])\<rparr>, gateway)"
    using handleRequest_call [of "post (call_payload ''tools/call'' ''get-weather'' (JObj [(''location'', JStr ''London'')]))"
            "call_payload ''tools/call'' ''get-weather'' (JObj [(''location'', JStr ''London'')])"
            "JStr ''get-weather''" gateway]
    by (simp add: post_def call_payload_def opt_prop_def or_empty_def
                  sendSuccessResponse_def stringify_def)
  moreover have "parseMCPRequest (Inr (call_payload ''tools/call'' ''get-weather'' (JObj [(''location'', JStr ''London'')])))
     = Inr (call_payload ''tools/call'' ''get-weather'' (JObj [(''location'', JStr ''London'')]))"
    by (simp add: parseMCPRequest_def call_payload_def get_prop_def opt_prop_def)
  ultimately show ?thesis using v x by simp
qed

lemma arms_success:
  "has_arm (sendSuccessResponse r) ''result'' = (result r \<noteq> None)"
  "has_arm (sendSuccessResponse r) ''error'' = (error r \<noteq> None)"
  by (cases "result r"; cases "error r";
      simp add: has_arm_def sendSuccessResponse_def stringify_def opt_prop_def)+

lemma arms_error:
  "has_arm (sendErrorResponse a b c) ''error''"
  "\<not> has_arm (sendErrorResponse a b c) ''result''"
  by (simp_all add: has_arm_def sendErrorResponse_def stringify_def opt_prop_def)

lemma arms_caught:
  "has_arm (caught err) ''error''" "\<not> has_arm (caught err) ''result''"
  by (cases err; simp add: caught_def arms_error)+

lemma executeTool_defined:
  assumes "resolves_defined s" and "executeTool s nm a = (Inr x, s')"
  shows "\<exists>y. x = Some y"
proof -
  obtain t where t: "get (tools s) nm = Some t" and x: "execute t a = Inr x"
    using assms(2) by (auto simp: executeTool_def split: option.splits if_splits sum.splits)
  then obtain n where "(n, t) \<in> set (tools s)"
    by (auto simp: get_def split: json.splits dest: map_of_SomeD)
  then have "execute t a \<noteq> Inr None"
    using assms(1) by (auto simp: resolves_defined_def)
  then show ?thesis
    using x by (cases x) auto
qed

lemma routeRequest_arms:
  assumes "routeRequest s p = (Inr r, s')"
  shows "\<not> (result r \<noteq> None \<and> error r \<noteq> None)
         \<and> (resolves_defined s \<longrightarrow> result r \<noteq> None \<or> error r \<noteq> None)"
  using assms
  by (auto simp: routeRequest_def handleToolsList_def handleToolsCall_def
           split: sum.splits prod.splits option.splits if_splits
           dest: executeTool_defined)

text \<open>
  A tool that resolves to \<^verbatim>\<open>undefined\<close> is answered for with \<^verbatim>\<open>{result: undefined}\<close>, which
  is written as \<open>{}\<close>: neither arm is there.
\<close>

theorem one_arm_counterexample:
  "body (fst (handleRequest (snd (registerTool silent_tool new_MCPServer))
               (post (call_payload ''tools/call'' ''notify'' (JObj []))))) = Some (JObj [])
   \<and> \<not> has_arm (fst (handleRequest (snd (registerTool silent_tool new_MCPServer))
                       (post (call_payload ''tools/call'' ''notify'' (JObj []))))) ''result''
   \<and> \<not> has_arm (fst (handleRequest (snd (registerTool silent_tool new_MCPServer))
                       (post (call_payload ''tools/call'' ''notify'' (JObj []))))) ''error''"
proof -
  have "tools (snd (registerTool silent_tool new_MCPServer)) = [(''notify'', silent_tool)]"
    by (simp add: registerTool_def new_MCPServer_def has_def silent_tool_def)
  then have "executeTool (snd (registerTool silent_tool new_MCPServer)) (JStr ''notify'') (JObj []) =
      (Inr None, snd (registerTool silent_tool new_MCPServer))"
    by (simp add: executeTool_def get_def validate_def jsonSchemaToZod_def silent_tool_def)
  then show ?thesis
    using handleRequest_call [of "post (call_payload ''tools/call'' ''notify'' (JObj []))"
            "call_payload ''tools/call'' ''notify'' (JObj [])" "JStr ''notify''"
            "snd (registerTool silent_tool new_MCPServer)"]
    by (simp add: post_def call_payload_def opt_prop_def or_empty_def
                  sendSuccessResponse_def stringify_def has_arm_def)
qed

text \<open>
  C9 (amended). The response to any request but a preflight or a health check never has
  both arms, and it has exactly one of them as long as no registered tool resolves to
  \<^verbatim>\<open>undefined\<close>.
\<close>

theorem one_arm:
  assumes "httpMethod req \<noteq> ''OPTIONS''" and "httpMethod req \<noteq> ''GET''"
  shows "\<not> (has_arm (fst (handleRequest s req)) ''result''
            \<and> has_arm (fst (handleRequest s req)) ''error'')
         \<and> (resolves_defined s \<longrightarrow>
              has_arm (fst (handleRequest s req)) ''result''
              \<noteq> has_arm (fst (handleRequest s req)) ''error'')"
proof (cases "httpMethod req = ''POST''")
  case False
  then show ?thesis
    using assms by (simp add: handleRequest_def arms_error)
next
  case post: True
  show ?thesis
  proof (cases "parseMCPRequest (payload req)")
    case (Inl err)
    then show ?thesis
      using post assms by (simp add: handleRequest_def arms_caught)
  next
    case (Inr p)
    obtain o' s' where rr: "routeRequest s p = (o', s')"
      by (cases "routeRequest s p")
    show ?thesis
    proof (cases o')
      case (Inl err)
      then show ?thesis
        using post Inr rr by (simp add: handleRequest_def arms_caught)
    next
      case r: (Inr r)
      then have "handleRequest s req = (sendSuccessResponse r, s')"
        using post Inr rr by (simp add: handleRequest_def)
      then show ?thesis
        using routeRequest_arms [of s p r s'] rr r by (auto simp: arms_success)
    qed
  qed
qed

theorem one_arm_witness:
  "httpMethod (post (JObj [(''method'', JStr ''tools/list'')])) \<noteq> ''OPTIONS''
   \<and> httpMethod (post (JObj [(''method'', JStr ''tools/list'')])) \<noteq> ''GET''
   \<and> resolves_defined gateway
   \<and> has_arm (fst (handleRequest gateway (post (JObj [(''method'', JStr ''tools/list'')])))) ''result''
   \<and> \<not> has_arm (fst (handleRequest gateway (post (JObj [(''method'', JStr ''tools/list'')])))) ''error''"
proof -
  have d: "resolves_defined gateway"
    by (simp add: resolves_defined_def gateway_tools echo_tool_def)
  have "has_arm (fst (handleRequest gateway (post (JObj [(''method'', JStr ''tools/list'')])))) ''result''"
    by (simp add: handleRequest_def post_def parseMCPRequest_def get_prop_def routeRequest_def
                  handleToolsList_def arms_success)
  then show ?thesis
    using d one_arm [of "post (JObj [(''method'', JStr ''tools/list'')])" gateway]
    by (simp add: post_def)
qed

end
